theory Spec2Isabelle
  imports Complex_Main
begin

section \<open>Arrays, errors and the object store\<close>

text \<open>
  The module \<^verbatim>\<open>VideoStitcher/rhombus_utils/velocity.py\<close> works on numpy arrays.  The
  arrays considered here are the one-dimensional ones, of any length.  An element of such an
  array is a number or, for an array that is not numeric, the object \<^verbatim>\<open>None\<close>, on which
  every arithmetic operation and every comparison raises \<^verbatim>\<open>TypeError\<close>.  These are the
  arguments of the right shape and the two ways of being malformed that the specification
  names, a wrong length and a wrong element type.  Arrays of two or more dimensions are not
  represented, and nothing below is a statement about them.

  A number is a double, modelled as the real it denotes; the specification has every
  component finite.  Comparison and negation of doubles are exact.  Subtraction and division
  round.  In \<open>normalize_position\<close> the difference \<^verbatim>\<open>1 - threshold[i]\<close> is compared with a
  component, so the branch taken depends on its rounding, and the rounding is modelled
  (\<open>round_double\<close> below).  In \<open>get_velocity\<close> the difference and the quotient are only
  returned, never tested, and stand for the values the machine computes.
\<close>

datatype scalar = Num real | NoneVal

type_synonym ndarray = "scalar list"

datatype error = ValidationError | IndexError | TypeError | ValueError

text \<open>
  Arrays are objects: a variable holds a reference, and an index assignment changes the
  object that every holder of the reference sees.  The store is the list of the objects
  allocated so far, a reference is a position in it, and a new object goes at the end.
  A statement or expression takes the store and returns a value or the exception it raised,
  together with the store it leaves behind.
\<close>

type_synonym addr = nat

type_synonym heap = "ndarray list"

type_synonym 'a prog = "heap \<Rightarrow> (error + 'a) \<times> heap"

definition return :: "'a \<Rightarrow> 'a prog" where
  "return x h = (Inr x, h)"

definition raise :: "error \<Rightarrow> 'a prog" where
  "raise e h = (Inl e, h)"

definition bind :: "'a prog \<Rightarrow> ('a \<Rightarrow> 'b prog) \<Rightarrow> 'b prog" where
  "bind m f h = (case m h of (Inl e, h') \<Rightarrow> (Inl e, h') | (Inr x, h') \<Rightarrow> f x h')"

definition seq :: "unit prog \<Rightarrow> 'a prog \<Rightarrow> 'a prog" where
  "seq m n = bind m (\<lambda>_. n)"

definition alloc :: "ndarray \<Rightarrow> addr prog" where
  "alloc v h = (Inr (length h), h @ [v])"

text \<open>What a caller observes of a call: the exception, or the contents of the returned array.\<close>

definition outcome :: "(error + addr) \<times> heap \<Rightarrow> error + ndarray" where
  "outcome r = (case fst r of Inl e \<Rightarrow> Inl e | Inr p \<Rightarrow> Inr (snd r ! p))"

text \<open>Every object that exists before a call has the same contents after it.\<close>

definition unchanged :: "heap \<Rightarrow> heap \<Rightarrow> bool" where
  "unchanged h h' \<longleftrightarrow> length h \<le> length h' \<and> take (length h) h' = h"

subsection \<open>Expressions\<close>

text \<open>\<^verbatim>\<open>a[i]\<close> for a literal index \<open>i \<ge> 0\<close>: \<^verbatim>\<open>IndexError\<close> out of range.\<close>

definition getitem :: "addr \<Rightarrow> nat \<Rightarrow> scalar prog" where
  "getitem p i h = (if i < length (h ! p) then return (h ! p ! i) h else raise IndexError h)"

text \<open>\<^verbatim>\<open>a[i] = v\<close>.\<close>

definition setitem :: "addr \<Rightarrow> nat \<Rightarrow> scalar \<Rightarrow> unit prog" where
  "setitem p i v h =
     (if i < length (h ! p) then return () (h[p := (h ! p)[i := v]]) else raise IndexError h)"

fun gt_scalar :: "scalar \<Rightarrow> scalar \<Rightarrow> error + bool" where
  "gt_scalar (Num x) (Num y) = Inr (x > y)"
| "gt_scalar _ _ = Inl TypeError"

fun lt_scalar :: "scalar \<Rightarrow> scalar \<Rightarrow> error + bool" where
  "lt_scalar (Num x) (Num y) = Inr (x < y)"
| "lt_scalar _ _ = Inl TypeError"

fun neg_scalar :: "scalar \<Rightarrow> error + scalar" where
  "neg_scalar (Num x) = Inr (Num (- x))"
| "neg_scalar NoneVal = Inl TypeError"

fun sub_scalar :: "scalar \<Rightarrow> scalar \<Rightarrow> error + scalar" where
  "sub_scalar (Num x) (Num y) = Inr (Num (x - y))"
| "sub_scalar _ _ = Inl TypeError"

fun div_scalar :: "scalar \<Rightarrow> real \<Rightarrow> error + scalar" where
  "div_scalar (Num x) d = Inr (Num (x / d))"
| "div_scalar NoneVal d = Inl TypeError"

text \<open>
  Rounding to a double (IEEE 754 binary64, round to nearest, ties to even).  A real \<open>x\<close>
  with \<^verbatim>\<open>2^e <= |x| < 2^(e+1)\<close> goes to the nearest multiple of \<^verbatim>\<open>2^(e-52)\<close>, the spacing
  of the doubles between these two powers, and of two nearest multiples to the even one
  (\<open>rne\<close>).  Below \<^verbatim>\<open>2^(-1022)\<close> the spacing stays \<^verbatim>\<open>2^(-1074)\<close>.  Overflow to infinity is not
  modelled: \<open>1 - t\<close> for a double \<open>t\<close> never rounds beyond the largest double.
\<close>

definition rne :: "real \<Rightarrow> int" where
  "rne y =
     (if y - of_int \<lfloor>y\<rfloor> < 1 / 2 then \<lfloor>y\<rfloor>
      else if 1 / 2 < y - of_int \<lfloor>y\<rfloor> then \<lfloor>y\<rfloor> + 1
      else if even \<lfloor>y\<rfloor> then \<lfloor>y\<rfloor> else \<lfloor>y\<rfloor> + 1)"

definition ulp :: "real \<Rightarrow> real" where
  "ulp x = 2 powr of_int (max \<lfloor>log 2 \<bar>x\<bar>\<rfloor> (- 1022) - 52)"

definition round_double :: "real \<Rightarrow> real" where
  "round_double x = (if x = 0 then 0 else of_int (rne (x / ulp x)) * ulp x)"

text \<open>Python's \<^verbatim>\<open>x - y\<close> on two doubles: the difference, rounded.\<close>

fun float_sub :: "scalar \<Rightarrow> scalar \<Rightarrow> error + scalar" where
  "float_sub (Num x) (Num y) = Inr (Num (round_double (x - y)))"
| "float_sub _ _ = Inl TypeError"

definition lift :: "error + 'a \<Rightarrow> 'a prog" where
  "lift r h = (r, h)"

text \<open>
  A binary operation evaluates its left operand, then its right operand, then itself:
  \<^verbatim>\<open>l > r\<close>, \<^verbatim>\<open>l < r\<close>, \<^verbatim>\<open>l - r\<close>, and the unary \<^verbatim>\<open>-r\<close>.
\<close>

definition cmp_gt :: "scalar prog \<Rightarrow> scalar prog \<Rightarrow> bool prog" where
  "cmp_gt l r = bind l (\<lambda>x. bind r (\<lambda>y. lift (gt_scalar x y)))"

definition cmp_lt :: "scalar prog \<Rightarrow> scalar prog \<Rightarrow> bool prog" where
  "cmp_lt l r = bind l (\<lambda>x. bind r (\<lambda>y. lift (lt_scalar x y)))"

definition minus :: "scalar prog \<Rightarrow> scalar prog \<Rightarrow> scalar prog" where
  "minus l r = bind l (\<lambda>x. bind r (\<lambda>y. lift (float_sub x y)))"

definition neg :: "scalar prog \<Rightarrow> scalar prog" where
  "neg r = bind r (\<lambda>y. lift (neg_scalar y))"

text \<open>\<^verbatim>\<open>if c1: s1 elif c2: s2\<close>: the second test is evaluated only when the first is false.\<close>

definition if_elif :: "bool prog \<Rightarrow> unit prog \<Rightarrow> bool prog \<Rightarrow> unit prog \<Rightarrow> unit prog" where
  "if_elif c1 s1 c2 s2 =
     bind c1 (\<lambda>t1. if t1 then s1 else bind c2 (\<lambda>t2. if t2 then s2 else return ()))"

subsection \<open>The vector module\<close>

text \<open>
  Modelled from the spec: \<^verbatim>\<open>rhombus_types/vector.py\<close> (\<^verbatim>\<open>Vec2\<close>, \<^verbatim>\<open>validate_vec2\<close>) is
  not among the sources.  The spec has \<^verbatim>\<open>Vec2\<close> as ``a pair of numeric components (x, y)'',
  with ``construction from two scalars'', and the validation as ``must satisfy the Vec2
  shape contract (exactly two numeric components) -- fails with a
  ValidationError-equivalent if not''.
\<close>

definition Vec2 :: "real \<Rightarrow> real \<Rightarrow> addr prog" where
  "Vec2 x y = alloc [Num x, Num y]"

fun is_vec2 :: "ndarray \<Rightarrow> bool" where
  "is_vec2 [Num x, Num y] = True"
| "is_vec2 _ = False"

definition validate_vec2 :: "addr \<Rightarrow> unit prog" where
  "validate_vec2 p h = (if is_vec2 (h ! p) then return () h else raise ValidationError h)"

subsection \<open>numpy arithmetic on arrays\<close>

text \<open>
  \<^verbatim>\<open>np.subtract(p, q)\<close> on one-dimensional arrays: arrays of equal length are paired
  element by element, an array of length one is stretched to the length of the other, and
  any other pair of lengths raises \<^verbatim>\<open>ValueError\<close>.  The elements are then subtracted in
  order, and the result is a new array.  \<^verbatim>\<open>p / d\<close> divides every element by the number
  \<open>d\<close> and is a new array as well.  \<open>get_velocity\<close> returns these numbers without testing
  them; \<open>sub_scalar\<close> and \<open>div_scalar\<close> give them unrounded.
\<close>

definition broadcast :: "ndarray \<Rightarrow> ndarray \<Rightarrow> error + (scalar \<times> scalar) list" where
  "broadcast xs ys =
     (if length xs = length ys then Inr (zip xs ys)
      else if length xs = 1 then Inr (map (\<lambda>y. (hd xs, y)) ys)
      else if length ys = 1 then Inr (map (\<lambda>x. (x, hd ys)) xs)
      else Inl ValueError)"

fun collect :: "(error + 'a) list \<Rightarrow> error + 'a list" where
  "collect [] = Inr []"
| "collect (Inl e # rs) = Inl e"
| "collect (Inr x # rs) = (case collect rs of Inl e \<Rightarrow> Inl e | Inr xs \<Rightarrow> Inr (x # xs))"

definition np_subtract :: "addr \<Rightarrow> addr \<Rightarrow> addr prog" where
  "np_subtract p q h =
     (case broadcast (h ! p) (h ! q) of
        Inl e \<Rightarrow> raise e h
      | Inr ps \<Rightarrow>
          (case collect (map (\<lambda>(x, y). sub_scalar x y) ps) of
             Inl e \<Rightarrow> raise e h
           | Inr zs \<Rightarrow> alloc zs h))"

definition np_divide :: "addr \<Rightarrow> real \<Rightarrow> addr prog" where
  "np_divide p d h =
     (case collect (map (\<lambda>x. div_scalar x d) (h ! p)) of
        Inl e \<Rightarrow> raise e h
      | Inr zs \<Rightarrow> alloc zs h)"

section \<open>The velocity module\<close>

text \<open>
  Modelled from the spec: the class \<^verbatim>\<open>HumanEvent\<close> (\<^verbatim>\<open>rhombus_types/human_event.py\<close>) is
  not among the sources.  The spec has a timestamped position as ``a pair of (position:
  Vec2, timestamp: numeric ...)''; \<open>get_velocity\<close> reads these two attributes only.
\<close>

record HumanEvent =
  position :: addr
  timestamp :: real

definition get_velocity :: "HumanEvent \<Rightarrow> HumanEvent \<Rightarrow> addr prog" where
  "get_velocity a b =
     (if timestamp b - timestamp a = 0 then Vec2 0 0
      else bind (np_subtract (position b) (position a))
             (\<lambda>d. np_divide d (timestamp b - timestamp a)))"

definition normalize_velocity :: "addr \<Rightarrow> addr \<Rightarrow> addr prog" where
  "normalize_velocity a threshold =
     seq (validate_vec2 a)
    (seq (validate_vec2 threshold)
    (bind (Vec2 0 0) (\<lambda>normalized_velocity.
     seq (if_elif
            (cmp_gt (getitem a 0) (getitem threshold 0))
              (setitem normalized_velocity 0 (Num 1))
            (cmp_lt (getitem a 0) (neg (getitem threshold 0)))
              (setitem normalized_velocity 0 (Num (- 1))))
    (seq (if_elif
            (cmp_gt (getitem a 1) (getitem threshold 1))
              (setitem normalized_velocity 1 (Num 1))
            (cmp_lt (getitem a 1) (neg (getitem threshold 1)))
              (setitem normalized_velocity 1 (Num (- 1))))
         (return normalized_velocity)))))"

definition normalize_position :: "addr \<Rightarrow> addr \<Rightarrow> addr prog" where
  "normalize_position a threshold =
     bind (Vec2 0 0) (\<lambda>normalized_position.
     seq (if_elif
            (cmp_gt (getitem a 0) (minus (return (Num 1)) (getitem threshold 0)))
              (setitem normalized_position 0 (Num 1))
            (cmp_lt (getitem a 0) (getitem threshold 0))
              (setitem normalized_position 0 (Num (- 1))))
    (seq (if_elif
            (cmp_gt (getitem a 1) (minus (return (Num 1)) (getitem threshold 1)))
              (setitem normalized_position 1 (Num 1))
            (cmp_lt (getitem a 1) (getitem threshold 1))
              (setitem normalized_position 1 (Num (- 1))))
         (return normalized_position)))"

subsection \<open>Default arguments and successive calls\<close>

text \<open>
  \<^verbatim>\<open>threshold: np.ndarray = Vec2(0, 0)\<close>: Python evaluates a default once, when the
  \<^verbatim>\<open>def\<close> statement runs, and every call that omits the argument receives that same
  object.  Loading the module runs the two \<^verbatim>\<open>def\<close> statements that have a default, in
  the order of the file.
\<close>

record module =
  normalize_velocity_default :: addr
  normalize_position_default :: addr

definition load_module :: "module prog" where
  "load_module =
     bind (Vec2 0 0) (\<lambda>d1.
     bind (Vec2 0 0) (\<lambda>d2.
     return \<lparr>normalize_velocity_default = d1, normalize_position_default = d2\<rparr>))"

text \<open>A call names the array to normalize and, optionally, a threshold.\<close>

datatype call = Normalize_velocity addr "addr option" | Normalize_position addr "addr option"

fun do_call :: "module \<Rightarrow> call \<Rightarrow> addr prog" where
  "do_call m (Normalize_velocity a None) = normalize_velocity a (normalize_velocity_default m)"
| "do_call m (Normalize_velocity a (Some t)) = normalize_velocity a t"
| "do_call m (Normalize_position a None) = normalize_position a (normalize_position_default m)"
| "do_call m (Normalize_position a (Some t)) = normalize_position a t"

text \<open>The store after a sequence of calls; a caller that catches an exception goes on.\<close>

fun run_calls :: "module \<Rightarrow> call list \<Rightarrow> heap \<Rightarrow> heap" where
  "run_calls m [] h = h"
| "run_calls m (c # cs) h = run_calls m cs (snd (do_call m c h))"

section \<open>Notions used to state the properties\<close>

text \<open>
  \<open>preserves k p Q\<close>: run in a store holding at least \<open>k\<close> objects, \<open>p\<close> only adds
  objects, leaves the first \<open>k\<close> objects as they are, and returns a value satisfying \<open>Q\<close>
  when it returns one.
\<close>

definition preserves :: "nat \<Rightarrow> 'a prog \<Rightarrow> ('a \<Rightarrow> bool) \<Rightarrow> bool" where
  "preserves k p Q \<longleftrightarrow>
     (\<forall>h. k \<le> length h \<longrightarrow>
        (case p h of (r, h') \<Rightarrow>
           length h \<le> length h' \<and> take k h' = take k h \<and>
           (case r of Inl e \<Rightarrow> True | Inr x \<Rightarrow> Q x)))"

text \<open>numpy's unary minus on the array a call returned, as in \<^verbatim>\<open>-get_velocity(b, a)\<close>.\<close>

definition negated :: "error + ndarray \<Rightarrow> error + ndarray" where
  "negated r = (case r of Inl e \<Rightarrow> Inl e | Inr xs \<Rightarrow> collect (map neg_scalar xs))"


section \<open>Rules for programs that leave existing objects alone\<close>

lemmas prog_defs = return_def raise_def bind_def seq_def alloc_def lift_def
  getitem_def setitem_def cmp_gt_def cmp_lt_def minus_def neg_def if_elif_def Vec2_def
  validate_vec2_def

lemma preserves_return: "Q x \<Longrightarrow> preserves k (return x) Q"
  by (simp add: preserves_def return_def)

lemma preserves_bind:
  assumes "preserves k m Q" and "\<And>x. Q x \<Longrightarrow> preserves k (f x) R"
  shows "preserves k (bind m f) R"
  unfolding preserves_def
proof (intro allI impI)
  fix h :: heap
  assume k: "k \<le> length h"
  obtain r h1 where m: "m h = (r, h1)" by (cases "m h")
  from assms(1) k m have h1: "length h \<le> length h1" "take k h1 = take k h"
    and q: "case r of Inl e \<Rightarrow> True | Inr x \<Rightarrow> Q x"
    by (auto simp: preserves_def)
  show "case bind m f h of (r, h') \<Rightarrow>
           length h \<le> length h' \<and> take k h' = take k h \<and>
           (case r of Inl e \<Rightarrow> True | Inr x \<Rightarrow> R x)"
  proof (cases r)
    case (Inl e)
    with m h1 show ?thesis by (simp add: bind_def)
  next
    case (Inr x)
    with q have "Q x" by simp
    then have "preserves k (f x) R" by (rule assms(2))
    moreover have "k \<le> length h1" using k h1(1) by simp
    ultimately have "case f x h1 of (r, h') \<Rightarrow>
           length h1 \<le> length h' \<and> take k h' = take k h1 \<and>
           (case r of Inl e \<Rightarrow> True | Inr x \<Rightarrow> R x)"
      by (simp add: preserves_def)
    with Inr m h1 show ?thesis by (auto simp: bind_def split: prod.splits)
  qed
qed

lemma preserves_seq:
  "preserves k m (\<lambda>_. True) \<Longrightarrow> preserves k n R \<Longrightarrow> preserves k (seq m n) R"
  unfolding seq_def by (rule preserves_bind) auto

lemma preserves_lift: "preserves k (lift r) (\<lambda>_. True)"
  by (simp add: preserves_def lift_def split: sum.splits)

lemma preserves_getitem: "preserves k (getitem p i) (\<lambda>_. True)"
  by (simp add: preserves_def getitem_def return_def raise_def)

lemma preserves_setitem: "k \<le> p \<Longrightarrow> preserves k (setitem p i v) (\<lambda>_. True)"
  by (simp add: preserves_def setitem_def return_def raise_def)

lemma preserves_alloc: "preserves k (alloc v) (\<lambda>r. k \<le> r)"
  by (simp add: preserves_def alloc_def)

lemma preserves_validate: "preserves k (validate_vec2 p) (\<lambda>_. True)"
  by (simp add: preserves_def validate_vec2_def return_def raise_def)

lemma preserves_cmp_gt:
  "preserves k l (\<lambda>_. True) \<Longrightarrow> preserves k r (\<lambda>_. True)
   \<Longrightarrow> preserves k (cmp_gt l r) (\<lambda>_. True)"
  unfolding cmp_gt_def by (intro preserves_bind preserves_lift)

lemma preserves_cmp_lt:
  "preserves k l (\<lambda>_. True) \<Longrightarrow> preserves k r (\<lambda>_. True)
   \<Longrightarrow> preserves k (cmp_lt l r) (\<lambda>_. True)"
  unfolding cmp_lt_def by (intro preserves_bind preserves_lift)

lemma preserves_minus:
  "preserves k l (\<lambda>_. True) \<Longrightarrow> preserves k r (\<lambda>_. True)
   \<Longrightarrow> preserves k (minus l r) (\<lambda>_. True)"
  unfolding minus_def by (intro preserves_bind preserves_lift)

lemma preserves_neg: "preserves k r (\<lambda>_. True) \<Longrightarrow> preserves k (neg r) (\<lambda>_. True)"
  unfolding neg_def by (intro preserves_bind preserves_lift)

lemma preserves_if_elif:
  assumes "preserves k c1 (\<lambda>_. True)" "preserves k s1 (\<lambda>_. True)"
    "preserves k c2 (\<lambda>_. True)" "preserves k s2 (\<lambda>_. True)"
  shows "preserves k (if_elif c1 s1 c2 s2) (\<lambda>_. True)"
  unfolding if_elif_def
proof (rule preserves_bind [OF assms(1)])
  fix t1 :: bool
  have "preserves k (bind c2 (\<lambda>t2. if t2 then s2 else return ())) (\<lambda>_. True)"
    by (rule preserves_bind [OF assms(3)]) (simp add: assms(4) preserves_return)
  then show "preserves k (if t1 then s1 else bind c2 (\<lambda>t2. if t2 then s2 else return ()))
     (\<lambda>_. True)"
    by (simp add: assms(2))
qed

lemma preservesD:
  assumes "preserves k p Q" "k \<le> length h" "p h = (r, h')"
  shows "length h \<le> length h'" "take k h' = take k h" "r = Inr x \<Longrightarrow> Q x"
  using assms(1)[unfolded preserves_def, rule_format, OF assms(2)] assms(3)
  by simp_all

lemma preserves_unchanged:
  assumes "preserves (length h) p Q"
  shows "unchanged h (snd (p h))"
proof -
  obtain r h' where p: "p h = (r, h')" by (cases "p h")
  from preservesD(1,2)[OF assms _ p] p show ?thesis by (simp add: unchanged_def)
qed

lemma preserves_fresh:
  assumes "preserves (length h) p (\<lambda>r. length h \<le> r)"
  shows "case fst (p h) of Inl e \<Rightarrow> True | Inr r \<Rightarrow> length h \<le> r"
proof -
  obtain r h' where p: "p h = (r, h')" by (cases "p h")
  from preservesD(3)[OF assms _ p] p show ?thesis by (simp split: sum.splits)
qed

lemma preserves_normalize_velocity: "preserves k (normalize_velocity a t) (\<lambda>r. k \<le> r)"
  unfolding normalize_velocity_def Vec2_def
  by (intro preserves_seq preserves_validate preserves_bind [OF preserves_alloc]
        preserves_if_elif preserves_cmp_gt preserves_cmp_lt preserves_neg preserves_getitem
        preserves_setitem preserves_return) simp_all

lemma preserves_normalize_position: "preserves k (normalize_position a t) (\<lambda>r. k \<le> r)"
  unfolding normalize_position_def Vec2_def
  by (intro preserves_seq preserves_bind [OF preserves_alloc]
        preserves_if_elif preserves_cmp_gt preserves_cmp_lt preserves_minus preserves_getitem
        preserves_setitem preserves_return) simp_all

section \<open>Evaluating the rounding\<close>

lemma ulp_eval:
  assumes "2 powr of_int e \<le> \<bar>x\<bar>" "\<bar>x\<bar> < 2 powr of_int (e + 1)" "- 1022 \<le> e"
  shows "ulp x = 2 powr of_int (e - 52)"
proof -
  from assms(1) have "0 < \<bar>x\<bar>" using powr_gt_zero [of 2 "of_int e"] by linarith
  moreover have "2 powr of_int e \<le> \<bar>x\<bar> \<and> \<bar>x\<bar> < 2 powr (of_int e + 1)"
    using assms(1,2) by simp
  ultimately have "\<lfloor>log 2 \<bar>x\<bar>\<rfloor> = e"
    using floor_log_eq_powr_iff [of "\<bar>x\<bar>" 2 e] by simp
  with assms(3) show ?thesis by (simp add: ulp_def max_def)
qed

lemma round_double_eval:
  assumes "2 powr of_int e \<le> \<bar>x\<bar>" "\<bar>x\<bar> < 2 powr of_int (e + 1)" "- 1022 \<le> e"
  shows "round_double x = of_int (rne (x / 2 powr of_int (e - 52))) * 2 powr of_int (e - 52)"
proof -
  from assms(1) have "x \<noteq> 0" using powr_gt_zero [of 2 "of_int e"] by auto
  then show ?thesis by (simp add: round_double_def ulp_eval [OF assms])
qed

lemma round_double_one: "round_double (1 - 0) = 1"
  using round_double_eval [of 0 1] by (simp add: rne_def powr_neg_numeral)

lemma round_double_three_quarters: "round_double (1 - 1 / 4) = 3 / 4"
  using round_double_eval [of "- 1" "1 - 1 / 4"] by (simp add: rne_def powr_neg_numeral)

text \<open>
  The double nearest to 0.1 is \<^verbatim>\<open>3602879701896397 / 2^55\<close> and the one nearest to 0.9 is
  \<^verbatim>\<open>8106479329266893 / 2^53\<close>.  The exact difference of 1 and the double 0.1 lies below the
  double 0.9, and rounds to it.
\<close>

lemma round_double_one_minus_tenth:
  "round_double (1 - 3602879701896397 / 36028797018963968)
     = 8106479329266893 / 9007199254740992"
  using round_double_eval [of "- 1" "1 - 3602879701896397 / 36028797018963968"]
  by (simp add: rne_def powr_neg_numeral)

text \<open>
  With \<^verbatim>\<open>t = 2^53 + 2\<close> the difference \<open>1 - t\<close> lies halfway between two doubles, and rounds
  to \<^verbatim>\<open>-2^53\<close>.
\<close>

lemma round_double_one_minus_big:
  "round_double (1 - 9007199254740994) = - 9007199254740992"
  using round_double_eval [of 53 "1 - 9007199254740994"]
  by (simp add: rne_def powr_neg_numeral)

text \<open>The same values with the differences written as one number.\<close>

lemma round_double_values:
  "round_double 1 = 1"
  "round_double (3 / 4) = 3 / 4"
  "round_double (1 / 4) = 1 / 4"
  "round_double (32425917317067571 / 36028797018963968) = 8106479329266893 / 9007199254740992"
  "round_double (- 9007199254740993) = - 9007199254740992"
  using round_double_one round_double_three_quarters round_double_one_minus_tenth
    round_double_one_minus_big round_double_eval [of "- 2" "1 / 4"]
  by (simp_all add: rne_def powr_neg_numeral)

section \<open>What the three functions compute on well-formed arguments\<close>

lemma get_velocity_vec2:
  assumes "h ! position a = [Num ax, Num ay]" "h ! position b = [Num bx, Num by]"
    "timestamp b - timestamp a \<noteq> 0"
  shows "get_velocity a b h =
     (Inr (Suc (length h)),
      h @ [[Num (bx - ax), Num (by - ay)],
           [Num ((bx - ax) / (timestamp b - timestamp a)),
            Num ((by - ay) / (timestamp b - timestamp a))]])"
  using assms
  by (simp add: get_velocity_def np_subtract_def np_divide_def broadcast_def prog_defs
      nth_append)

lemma normalize_velocity_vec2:
  assumes "a < length h" "t < length h" "h ! a = [Num vx, Num vy]" "h ! t = [Num tx, Num ty]"
  shows "normalize_velocity a t h =
     (Inr (length h),
      h @ [[Num (if vx > tx then 1 else if vx < - tx then - 1 else 0),
            Num (if vy > ty then 1 else if vy < - ty then - 1 else 0)]])"
  using assms
  by (simp add: normalize_velocity_def prog_defs nth_append)

lemma normalize_position_two:
  assumes "a < length h" "t < length h"
    "h ! a = Num vx # Num vy # ra" "h ! t = Num tx # Num ty # rt"
  shows "normalize_position a t h =
     (Inr (length h),
      h @ [[Num (if vx > round_double (1 - tx) then 1 else if vx < tx then - 1 else 0),
            Num (if vy > round_double (1 - ty) then 1 else if vy < ty then - 1 else 0)]])"
  using assms
  by (simp add: normalize_position_def prog_defs nth_append)

section \<open>Malformed arguments and the default threshold\<close>

lemma is_vec2_iff: "is_vec2 xs \<longleftrightarrow> (\<exists>x y. xs = [Num x, Num y])"
  by (cases xs rule: is_vec2.cases) simp_all


lemma normalize_velocity_invalid:
  assumes "\<not> is_vec2 (h ! a) \<or> \<not> is_vec2 (h ! t)"
  shows "normalize_velocity a t h = (Inl ValidationError, h)"
  using assms by (auto simp add: normalize_velocity_def prog_defs)

lemma ndarray_shapes [case_names nil num1 none1 numnum numnone nonefirst]:
  obtains "xs = []" | x where "xs = [Num x]" | "xs = [NoneVal]"
  | x y r where "xs = Num x # Num y # r" | x r where "xs = Num x # NoneVal # r"
  | s r where "xs = NoneVal # s # r"
proof (cases xs)
  case Nil
  then show ?thesis using that(1) by simp
next
  case (Cons s ys)
  show ?thesis
  proof (cases ys)
    case Nil
    with Cons show ?thesis using that(2,3) by (cases s) simp_all
  next
    case (Cons s' r)
    with \<open>xs = s # ys\<close> show ?thesis using that(4,5,6) by (cases s; cases s') simp_all
  qed
qed


lemma normalize_position_contents:
  assumes "a < length h" "t < length h" "a' < length h'" "t' < length h'"
    "h' ! a' = h ! a" "h' ! t' = h ! t"
  shows "outcome (normalize_position a' t' h') = outcome (normalize_position a t h)"
proof -
  have a: "(h @ [z]) ! a = h ! a" and t: "(h @ [z]) ! t = h ! t"
    and a': "(h' @ [z]) ! a' = h ! a" and t': "(h' @ [z]) ! t' = h ! t" for z
    using assms by (simp_all add: nth_append)
  show ?thesis
  proof (cases "h ! a" rule: ndarray_shapes)
    case (numnum x y r)
    then show ?thesis
      by (cases "h ! t" rule: ndarray_shapes)
         (use numnum a t a' t' in \<open>simp_all add: normalize_position_def prog_defs outcome_def\<close>)
  next
    case (numnone x r)
    then show ?thesis
      by (cases "h ! t" rule: ndarray_shapes)
         (use numnone a t a' t' in \<open>simp_all add: normalize_position_def prog_defs outcome_def\<close>)
  qed (cases "h ! t" rule: ndarray_shapes;
       use a t a' t' in \<open>simp add: normalize_position_def prog_defs outcome_def\<close>)+
qed

lemma normalize_position_default:
  assumes "a < length h" "d < length h" "h ! d = [Num 0, Num 0]"
  shows "outcome (normalize_position a d h) = outcome (bind (Vec2 0 0) (normalize_position a) h)"
proof -
  have "bind (Vec2 0 0) (normalize_position a) h =
        normalize_position a (length h) (h @ [[Num 0, Num 0]])"
    by (simp add: bind_def Vec2_def alloc_def)
  moreover have "outcome (normalize_position a (length h) (h @ [[Num 0, Num 0]])) =
        outcome (normalize_position a d h)"
    using assms by (intro normalize_position_contents) (simp_all add: nth_append)
  ultimately show ?thesis by simp
qed

lemma normalize_velocity_default:
  assumes "a < length h" "d < length h" "h ! d = [Num 0, Num 0]"
  shows "outcome (normalize_velocity a d h) = outcome (bind (Vec2 0 0) (normalize_velocity a) h)"
proof (cases "is_vec2 (h ! a)")
  case True
  then obtain x y where xy: "h ! a = [Num x, Num y]" by (auto simp: is_vec2_iff)
  have "normalize_velocity a (length h) (h @ [[Num 0, Num 0]]) =
     (Inr (Suc (length h)),
      (h @ [[Num 0, Num 0]]) @ [[Num (if x > 0 then 1 else if x < - 0 then - 1 else 0),
            Num (if y > 0 then 1 else if y < - 0 then - 1 else 0)]])"
    using normalize_velocity_vec2 [of a "h @ [[Num 0, Num 0]]" "length h" x y 0 0] assms(1) xy
    by (simp add: nth_append)
  then show ?thesis
    using normalize_velocity_vec2 [OF assms(1,2) xy assms(3)]
    by (simp add: outcome_def bind_def Vec2_def alloc_def nth_append)
next
  case False
  then have "\<not> is_vec2 ((h @ [[Num 0, Num 0]]) ! a)" using assms(1) by (simp add: nth_append)
  then show ?thesis using False
    by (simp add: normalize_velocity_invalid outcome_def bind_def Vec2_def alloc_def)
qed

section \<open>Successive calls\<close>

lemma unchanged_refl: "unchanged h h"
  by (simp add: unchanged_def)

lemma unchanged_trans:
  assumes "unchanged h h'" "unchanged h' h''"
  shows "unchanged h h''"
proof -
  from assms have l: "length h \<le> length h'" "length h' \<le> length h''"
    and t: "take (length h) h' = h" "take (length h') h'' = h'"
    by (simp_all add: unchanged_def)
  have "take (length h) h'' = take (length h) (take (length h') h'')"
    using l(1) by (simp add: min_def)
  with t have "take (length h) h'' = h" by simp
  with l show ?thesis by (simp add: unchanged_def)
qed

lemma unchanged_nth:
  assumes "unchanged h h'" "p < length h"
  shows "p < length h' \<and> h' ! p = h ! p"
proof -
  from assms(1) have l: "length h \<le> length h'" and t: "take (length h) h' = h"
    by (simp_all add: unchanged_def)
  have "take (length h) h' ! p = h' ! p" using assms(2) by simp
  with t l assms(2) show ?thesis by simp
qed

lemma unchanged_do_call: "unchanged h (snd (do_call m c h))"
  by (cases "(m, c)" rule: do_call.cases)
     (simp_all add: preserves_unchanged [OF preserves_normalize_velocity]
        preserves_unchanged [OF preserves_normalize_position])

lemma unchanged_run_calls: "unchanged h (run_calls m cs h)"
proof (induction cs arbitrary: h)
  case Nil
  show ?case by (simp add: unchanged_refl)
next
  case (Cons c cs)
  show ?case
    using unchanged_trans [OF unchanged_do_call Cons.IH] by simp
qed

lemma load_module_result:
  "load_module h0 =
     (Inr \<lparr>normalize_velocity_default = length h0,
           normalize_position_default = Suc (length h0)\<rparr>,
      h0 @ [[Num 0, Num 0], [Num 0, Num 0]])"
  by (simp add: load_module_def bind_def Vec2_def alloc_def return_def)

lemma defaults_stay_zero:
  assumes "load_module h0 = (Inr m, h1)" "h = run_calls m cs h1"
  shows "normalize_velocity_default m < length h \<and> h ! normalize_velocity_default m = [Num 0, Num 0]"
    and "normalize_position_default m < length h \<and> h ! normalize_position_default m = [Num 0, Num 0]"
proof -
  from assms(1) have m: "normalize_velocity_default m = length h0"
      "normalize_position_default m = Suc (length h0)"
    and h1: "h1 = h0 @ [[Num 0, Num 0], [Num 0, Num 0]]"
    by (auto simp: load_module_result)
  have u: "unchanged h1 h" unfolding assms(2) by (rule unchanged_run_calls)
  from unchanged_nth [OF u, of "length h0"] m h1
  show "normalize_velocity_default m < length h \<and> h ! normalize_velocity_default m = [Num 0, Num 0]"
    by (simp add: nth_append)
  from unchanged_nth [OF u, of "Suc (length h0)"] m h1
  show "normalize_position_default m < length h \<and> h ! normalize_position_default m = [Num 0, Num 0]"
    by (simp add: nth_append)
qed

lemma swap_quotient: "(x - y) / (s - t) = (y - x) / (t - s)" for x y s t :: real
  using minus_divide_divide [of "y - x" "t - s"] by simp

section \<open>Velocity between two events\<close>

lemma get_velocity_same_time:
  "timestamp b - timestamp a = 0 \<Longrightarrow> get_velocity a b h = (Inr (length h), h @ [[Num 0, Num 0]])"
  by (simp add: get_velocity_def Vec2_def alloc_def)

text \<open>
  C2: when \<open>b.timestamp - a.timestamp = 0\<close>, \<open>get_velocity a b\<close> returns the zero vector
  \<open>(0, 0)\<close>, whatever the positions are; no exception reaches the caller.
\<close>

theorem get_velocity_equal_timestamps:
  "timestamp b - timestamp a = 0 \<Longrightarrow> outcome (get_velocity a b h) = Inr [Num 0, Num 0]"
  by (simp add: get_velocity_same_time outcome_def)

theorem get_velocity_equal_timestamps_witness:
  "timestamp \<lparr>position = 1, timestamp = 40\<rparr> - timestamp \<lparr>position = 0, timestamp = 40\<rparr> = 0
   \<and> outcome (get_velocity \<lparr>position = 0, timestamp = 40\<rparr> \<lparr>position = 1, timestamp = 40\<rparr>
        [[Num 3, Num 4], [NoneVal]]) = Inr [Num 0, Num 0]"
  using get_velocity_equal_timestamps
    [of "\<lparr>position = 1, timestamp = 40\<rparr>" "\<lparr>position = 0, timestamp = 40\<rparr>"
        "[[Num 3, Num 4], [NoneVal]]"]
  by simp

text \<open>
  C1: for well-formed positions and \<open>b.timestamp - a.timestamp \<noteq> 0\<close>, \<open>get_velocity a b\<close>
  returns \<open>(b.position - a.position) / (b.timestamp - a.timestamp)\<close>, each axis computed
  on its own.
\<close>

theorem get_velocity_formula:
  assumes "position a < length h" and "position b < length h"
    and "h ! position a = [Num ax, Num ay]" and "h ! position b = [Num bx, Num by]"
    and "timestamp b - timestamp a \<noteq> 0"
  shows "outcome (get_velocity a b h) =
     Inr [Num ((bx - ax) / (timestamp b - timestamp a)),
          Num ((by - ay) / (timestamp b - timestamp a))]"
  using get_velocity_vec2 [OF assms(3,4,5)]
  by (simp add: outcome_def nth_append)

theorem get_velocity_formula_witness:
  "outcome (get_velocity \<lparr>position = 0, timestamp = 1000\<rparr> \<lparr>position = 1, timestamp = 1500\<rparr>
      [[Num 100, Num 200], [Num 600, Num 100]]) = Inr [Num 1, Num (- (1 / 5))]"
  using get_velocity_formula
    [of "\<lparr>position = 0, timestamp = 1000\<rparr>" "[[Num 100, Num 200], [Num 600, Num 100]]"
        "\<lparr>position = 1, timestamp = 1500\<rparr>" 100 200 600 100]
  by simp

text \<open>
  C6, as stated: \<open>get_velocity a b\<close> equals \<open>- get_velocity b a\<close> when the timestamps
  differ.  It fails: for the events at \<open>(0, 0)\<close>, time 0, and \<open>(1, 1)\<close>, time 1, both
  orders give \<open>(1, 1)\<close>, and the negation of the second is \<open>(-1, -1)\<close>.
\<close>

theorem get_velocity_antisymmetry_counterexample:
  "outcome (get_velocity \<lparr>position = 0, timestamp = 0\<rparr> \<lparr>position = 1, timestamp = 1\<rparr>
      [[Num 0, Num 0], [Num 1, Num 1]])
   \<noteq> negated (outcome (get_velocity \<lparr>position = 1, timestamp = 1\<rparr> \<lparr>position = 0, timestamp = 0\<rparr>
      [[Num 0, Num 0], [Num 1, Num 1]]))"
  by (simp add: get_velocity_def np_subtract_def np_divide_def broadcast_def prog_defs
      outcome_def negated_def nth_append)

text \<open>
  C6, amended: swapping the two events negates the difference of the positions and the
  difference of the timestamps alike, so for well-formed positions and distinct timestamps
  \<open>get_velocity a b\<close> equals \<open>get_velocity b a\<close>.
\<close>

theorem get_velocity_swap:
  assumes "position a < length h" and "position b < length h"
    and "h ! position a = [Num ax, Num ay]" and "h ! position b = [Num bx, Num by]"
    and "timestamp b - timestamp a \<noteq> 0"
  shows "outcome (get_velocity a b h) = outcome (get_velocity b a h)"
proof -
  from assms(5) have ne: "timestamp a - timestamp b \<noteq> 0" by simp
  have ab: "outcome (get_velocity a b h) =
     Inr [Num ((bx - ax) / (timestamp b - timestamp a)),
          Num ((by - ay) / (timestamp b - timestamp a))]"
    using get_velocity_vec2 [OF assms(3,4,5)] by (simp add: outcome_def nth_append)
  have ba: "outcome (get_velocity b a h) =
     Inr [Num ((ax - bx) / (timestamp a - timestamp b)),
          Num ((ay - by) / (timestamp a - timestamp b))]"
    using get_velocity_vec2 [OF assms(4,3) ne] by (simp add: outcome_def nth_append)
  have "(bx - ax) / (timestamp b - timestamp a) = (ax - bx) / (timestamp a - timestamp b)"
    and "(by - ay) / (timestamp b - timestamp a) = (ay - by) / (timestamp a - timestamp b)"
    by (rule swap_quotient)+
  with ab ba show ?thesis by simp
qed

theorem get_velocity_swap_witness:
  "outcome (get_velocity \<lparr>position = 0, timestamp = 0\<rparr> \<lparr>position = 1, timestamp = 1\<rparr>
      [[Num 0, Num 0], [Num 1, Num 1]])
   = outcome (get_velocity \<lparr>position = 1, timestamp = 1\<rparr> \<lparr>position = 0, timestamp = 0\<rparr>
      [[Num 0, Num 0], [Num 1, Num 1]])"
  using get_velocity_swap
    [of "\<lparr>position = 0, timestamp = 0\<rparr>" "[[Num 0, Num 0], [Num 1, Num 1]]"
        "\<lparr>position = 1, timestamp = 1\<rparr>" 0 0 1 1]
  by simp

section \<open>Quantizing velocities and positions\<close>

text \<open>
  C3, as stated: for every velocity and every threshold the x-component of
  \<open>normalize_velocity (t, 0) (t, 0)\<close> is 0.  It fails for a negative \<open>t\<close>: with \<open>t = -1\<close>
  the first test \<open>-1 > -1\<close> is false and the second, \<open>-1 < 1\<close>, is true, so the
  x-component is \<open>-1\<close>.
\<close>

theorem normalize_velocity_boundary_counterexample:
  "outcome (normalize_velocity 0 1 [[Num (- 1), Num 0], [Num (- 1), Num 0]])
     = Inr [Num (- 1), Num 0]
   \<and> Num (- 1) \<noteq> Num 0"
  by (simp add: normalize_velocity_def prog_defs outcome_def)

text \<open>
  C3, amended: for every velocity \<open>(vx, vy)\<close> and threshold \<open>(tx, ty)\<close>, each component of
  \<open>normalize_velocity\<close> is 1 if \<open>c > t\<close>, else \<open>-1\<close> if \<open>c < -t\<close>, else 0; the comparisons
  are strict, so for \<open>t \<ge> 0\<close> the result of \<open>normalize_velocity (t, 0) (t, 0)\<close> has
  x-component 0.
\<close>

theorem normalize_velocity_policy:
  assumes "a < length h" and "t < length h"
    and "h ! a = [Num vx, Num vy]" and "h ! t = [Num tx, Num ty]"
  shows "outcome (normalize_velocity a t h) =
           Inr [Num (if vx > tx then 1 else if vx < - tx then - 1 else 0),
                Num (if vy > ty then 1 else if vy < - ty then - 1 else 0)]
       \<and> (0 \<le> tx \<and> vx = tx \<and> vy = 0 \<and> ty = 0 \<longrightarrow>
            outcome (normalize_velocity a t h) = Inr [Num 0, Num 0])"
  using normalize_velocity_vec2 [OF assms] by (simp add: outcome_def)

theorem normalize_velocity_policy_witness:
  "outcome (normalize_velocity 0 1 [[Num 5, Num (- 3)], [Num 2, Num 2]]) = Inr [Num 1, Num (- 1)]
   \<and> outcome (normalize_velocity 0 1 [[Num 2, Num 0], [Num 2, Num 0]]) = Inr [Num 0, Num 0]"
  using normalize_velocity_policy [of 0 "[[Num 5, Num (- 3)], [Num 2, Num 2]]" 1 5 "- 3" 2 2]
    normalize_velocity_policy [of 0 "[[Num 2, Num 0], [Num 2, Num 0]]" 1 2 0 2 0]
  by simp

text \<open>
  C4: for every position \<open>(px, py)\<close> and threshold \<open>(tx, ty)\<close>, each component of
  \<open>normalize_position\<close> is 1 if \<open>c > 1 - t\<close>, else \<open>-1\<close> if \<open>c < t\<close>, else 0.  Here \<open>1 - t\<close>
  is the difference as the program computes it, a double: \<open>round_double (1 - t)\<close>.
\<close>

theorem normalize_position_policy:
  assumes "a < length h" and "t < length h"
    and "h ! a = [Num px, Num py]" and "h ! t = [Num tx, Num ty]"
  shows "outcome (normalize_position a t h) =
           Inr [Num (if px > round_double (1 - tx) then 1 else if px < tx then - 1 else 0),
                Num (if py > round_double (1 - ty) then 1 else if py < ty then - 1 else 0)]"
  using normalize_position_two [OF assms] by (simp add: outcome_def)

text \<open>
  The witness has the position \<open>(7/8, 1/8)\<close> with the threshold \<open>(1/4, 1/4)\<close>, and the
  doubles nearest to 0.9 and 0.1 as x-components: there the rounded difference is the
  double 0.9 itself, the test \<open>c > 1 - t\<close> is false, and the component is 0.
\<close>

theorem normalize_position_policy_witness:
  "outcome (normalize_position 0 1 [[Num (7 / 8), Num (1 / 8)], [Num (1 / 4), Num (1 / 4)]])
     = Inr [Num 1, Num (- 1)]
   \<and> outcome (normalize_position 0 1
        [[Num (8106479329266893 / 9007199254740992), Num (1 / 2)],
         [Num (3602879701896397 / 36028797018963968), Num (1 / 4)]])
     = Inr [Num 0, Num 0]"
  using normalize_position_policy
      [of 0 "[[Num (7 / 8), Num (1 / 8)], [Num (1 / 4), Num (1 / 4)]]" 1
          "7 / 8" "1 / 8" "1 / 4" "1 / 4"]
    normalize_position_policy
      [of 0 "[[Num (8106479329266893 / 9007199254740992), Num (1 / 2)],
              [Num (3602879701896397 / 36028797018963968), Num (1 / 4)]]" 1
          "8106479329266893 / 9007199254740992" "1 / 2"
          "3602879701896397 / 36028797018963968" "1 / 4"]
  by (simp add: round_double_values)

text \<open>
  C5: for every input vector and every threshold with both components \<open>\<ge> 0\<close>, each
  component of the result of \<open>normalize_velocity\<close> and of \<open>normalize_position\<close> is one of
  \<open>-1\<close>, 0 and 1.
\<close>

theorem normalize_components:
  assumes "a < length h" and "t < length h"
    and "h ! a = [Num vx, Num vy]" and "h ! t = [Num tx, Num ty]"
    and "0 \<le> tx" and "0 \<le> ty"
  shows "(\<exists>x y. outcome (normalize_velocity a t h) = Inr [Num x, Num y]
            \<and> x \<in> {- 1, 0, 1} \<and> y \<in> {- 1, 0, 1})
       \<and> (\<exists>x y. outcome (normalize_position a t h) = Inr [Num x, Num y]
            \<and> x \<in> {- 1, 0, 1} \<and> y \<in> {- 1, 0, 1})"
  using normalize_velocity_vec2 [OF assms(1-4)] normalize_position_two [OF assms(1-4)]
  by (simp add: outcome_def)

theorem normalize_components_witness:
  "(\<exists>x y. outcome (normalize_velocity 0 1 [[Num 0.01, Num (- 7)], [Num 0.05, Num 0]])
             = Inr [Num x, Num y] \<and> x \<in> {- 1, 0, 1} \<and> y \<in> {- 1, 0, 1})
   \<and> (\<exists>x y. outcome (normalize_position 0 1 [[Num 0.01, Num (- 7)], [Num 0.05, Num 0]])
             = Inr [Num x, Num y] \<and> x \<in> {- 1, 0, 1} \<and> y \<in> {- 1, 0, 1})"
  using normalize_components [of 0 "[[Num 0.01, Num (- 7)], [Num 0.05, Num 0]]" 1 "0.01" "- 7" "0.05" 0]
  by simp

text \<open>
  C9: on an axis whose threshold component \<open>t\<close> is strictly negative, the component of
  \<open>normalize_velocity\<close> is never 0: it is 1 when \<open>c > t\<close> (also when \<open>c < -t\<close> holds as
  well) and \<open>-1\<close> otherwise.
\<close>

theorem normalize_velocity_negative_threshold:
  assumes "a < length h" and "t < length h"
    and "h ! a = [Num vx, Num vy]" and "h ! t = [Num tx, Num ty]"
  shows "\<exists>x y. outcome (normalize_velocity a t h) = Inr [Num x, Num y]
           \<and> (tx < 0 \<longrightarrow> x \<noteq> 0 \<and> x = (if vx > tx then 1 else - 1))
           \<and> (ty < 0 \<longrightarrow> y \<noteq> 0 \<and> y = (if vy > ty then 1 else - 1))"
  using normalize_velocity_vec2 [OF assms] by (simp add: outcome_def)

theorem normalize_velocity_negative_threshold_witness:
  "(- 1 :: real) < 0 \<and> (- 2 :: real) < 0 \<and> (- 0.5 :: real) < - (- 1)
   \<and> outcome (normalize_velocity 0 1 [[Num (- 0.5), Num (- 5)], [Num (- 1), Num (- 2)]])
       = Inr [Num 1, Num (- 1)]"
  using normalize_velocity_negative_threshold
    [of 0 "[[Num (- 0.5), Num (- 5)], [Num (- 1), Num (- 2)]]" 1 "- 0.5" "- 5" "- 1" "- 2"]
  by auto

text \<open>
  C10: in \<open>normalize_position\<close> the far-edge test comes first: on an axis with \<open>t > 0.5\<close>,
  when both tests \<open>c > 1 - t\<close> and \<open>c < t\<close> hold the component is 1, never \<open>-1\<close>.  The
  first test is the one the program makes, on the rounded difference
  \<open>round_double (1 - t)\<close>.
\<close>

theorem normalize_position_far_edge_first:
  assumes "a < length h" and "t < length h"
    and "h ! a = [Num px, Num py]" and "h ! t = [Num tx, Num ty]"
  shows "\<exists>x y. outcome (normalize_position a t h) = Inr [Num x, Num y]
           \<and> (tx > 0.5 \<and> px > round_double (1 - tx) \<and> px < tx \<longrightarrow> x = 1)
           \<and> (ty > 0.5 \<and> py > round_double (1 - ty) \<and> py < ty \<longrightarrow> y = 1)"
  using normalize_position_two [OF assms] by (simp add: outcome_def)

theorem normalize_position_far_edge_first_witness:
  "(3 / 4 :: real) > 0.5 \<and> (1 / 2 :: real) > round_double (1 - 3 / 4) \<and> (1 / 2 :: real) < 3 / 4
   \<and> (5 / 8 :: real) > round_double (1 - 3 / 4) \<and> (5 / 8 :: real) < 3 / 4
   \<and> outcome (normalize_position 0 1 [[Num (1 / 2), Num (5 / 8)], [Num (3 / 4), Num (3 / 4)]])
       = Inr [Num 1, Num 1]"
  using normalize_position_far_edge_first
    [of 0 "[[Num (1 / 2), Num (5 / 8)], [Num (3 / 4), Num (3 / 4)]]" 1
        "1 / 2" "5 / 8" "3 / 4" "3 / 4"]
  by (auto simp add: round_double_values)

text \<open>
  Where the rounding makes the first test false, the second decides: with \<^verbatim>\<open>c = -2^53\<close>
  and \<^verbatim>\<open>t = 2^53 + 2\<close> the rounded difference is \<open>c\<close> itself, and the component is \<open>-1\<close>.
\<close>

lemma normalize_position_rounded_tie:
  "outcome (normalize_position 0 1
      [[Num (- 9007199254740992), Num (1 / 2)], [Num 9007199254740994, Num (3 / 4)]])
     = Inr [Num (- 1), Num 1]"
  using normalize_position_two
    [of 0 "[[Num (- 9007199254740992), Num (1 / 2)], [Num 9007199254740994, Num (3 / 4)]]" 1
        "- 9007199254740992" "1 / 2" "[]" 9007199254740994 "3 / 4" "[]"]
  by (simp add: outcome_def round_double_values)

section \<open>Validation of the arguments\<close>




section \<open>Effects on the store\<close>

text \<open>
  C8: no call of \<open>normalize_velocity\<close> or \<open>normalize_position\<close> changes an object that
  exists when it is called (its input, its threshold, the default thresholds); the array it
  returns is a new object; and after loading the module and any sequence of calls, a call
  that omits the threshold has the outcome of a call with a newly built zero vector.
\<close>

theorem normalize_no_mutation:
  assumes "load_module h0 = (Inr m, h1)" and "h = run_calls m cs h1"
    and "a < length h" and "t < length h"
  shows "unchanged h (snd (normalize_velocity a t h))
       \<and> unchanged h (snd (normalize_position a t h))
       \<and> (case fst (normalize_velocity a t h) of Inl e \<Rightarrow> True | Inr r \<Rightarrow> length h \<le> r)
       \<and> (case fst (normalize_position a t h) of Inl e \<Rightarrow> True | Inr r \<Rightarrow> length h \<le> r)
       \<and> outcome (do_call m (Normalize_velocity a None) h) =
           outcome (bind (Vec2 0 0) (normalize_velocity a) h)
       \<and> outcome (do_call m (Normalize_position a None) h) =
           outcome (bind (Vec2 0 0) (normalize_position a) h)"
proof (intro conjI)
  show "unchanged h (snd (normalize_velocity a t h))"
    by (rule preserves_unchanged [OF preserves_normalize_velocity])
  show "unchanged h (snd (normalize_position a t h))"
    by (rule preserves_unchanged [OF preserves_normalize_position])
  show "case fst (normalize_velocity a t h) of Inl e \<Rightarrow> True | Inr r \<Rightarrow> length h \<le> r"
    by (rule preserves_fresh [OF preserves_normalize_velocity])
  show "case fst (normalize_position a t h) of Inl e \<Rightarrow> True | Inr r \<Rightarrow> length h \<le> r"
    by (rule preserves_fresh [OF preserves_normalize_position])
  show "outcome (do_call m (Normalize_velocity a None) h) =
           outcome (bind (Vec2 0 0) (normalize_velocity a) h)"
    using defaults_stay_zero(1) [OF assms(1,2)] assms(3)
    by (simp add: normalize_velocity_default)
  show "outcome (do_call m (Normalize_position a None) h) =
           outcome (bind (Vec2 0 0) (normalize_position a) h)"
    using defaults_stay_zero(2) [OF assms(1,2)] assms(3)
    by (simp add: normalize_position_default)
qed

theorem normalize_no_mutation_witness:
  "load_module [[Num 5, Num (- 3)]] =
     (Inr \<lparr>normalize_velocity_default = 1, normalize_position_default = 2\<rparr>,
      [[Num 5, Num (- 3)], [Num 0, Num 0], [Num 0, Num 0]])
   \<and> run_calls \<lparr>normalize_velocity_default = 1, normalize_position_default = 2\<rparr>
       [Normalize_velocity 0 None, Normalize_position 0 (Some 1)]
       [[Num 5, Num (- 3)], [Num 0, Num 0], [Num 0, Num 0]]
     = [[Num 5, Num (- 3)], [Num 0, Num 0], [Num 0, Num 0], [Num 1, Num (- 1)], [Num 1, Num (- 1)]]
   \<and> unchanged
        [[Num 5, Num (- 3)], [Num 0, Num 0], [Num 0, Num 0], [Num 1, Num (- 1)], [Num 1, Num (- 1)]]
        (snd (normalize_velocity 0 1
          [[Num 5, Num (- 3)], [Num 0, Num 0], [Num 0, Num 0], [Num 1, Num (- 1)], [Num 1, Num (- 1)]]))
   \<and> fst (normalize_velocity 0 1
          [[Num 5, Num (- 3)], [Num 0, Num 0], [Num 0, Num 0], [Num 1, Num (- 1)], [Num 1, Num (- 1)]])
       = Inr 5
   \<and> outcome (do_call \<lparr>normalize_velocity_default = 1, normalize_position_default = 2\<rparr>
         (Normalize_velocity 0 None)
          [[Num 5, Num (- 3)], [Num 0, Num 0], [Num 0, Num 0], [Num 1, Num (- 1)], [Num 1, Num (- 1)]])
       = outcome (bind (Vec2 0 0) (normalize_velocity 0)
          [[Num 5, Num (- 3)], [Num 0, Num 0], [Num 0, Num 0], [Num 1, Num (- 1)], [Num 1, Num (- 1)]])"
proof -
  have l: "load_module [[Num 5, Num (- 3)]] =
     (Inr \<lparr>normalize_velocity_default = 1, normalize_position_default = 2\<rparr>,
      [[Num 5, Num (- 3)], [Num 0, Num 0], [Num 0, Num 0]])"
    by (simp add: load_module_result)
  have r: "[[Num 5, Num (- 3)], [Num 0, Num 0], [Num 0, Num 0], [Num 1, Num (- 1)], [Num 1, Num (- 1)]]
     = run_calls \<lparr>normalize_velocity_default = 1, normalize_position_default = 2\<rparr>
       [Normalize_velocity 0 None, Normalize_position 0 (Some 1)]
       [[Num 5, Num (- 3)], [Num 0, Num 0], [Num 0, Num 0]]"
    by (simp add: normalize_velocity_def normalize_position_def prog_defs round_double_values)
  have f: "fst (normalize_velocity 0 1
          [[Num 5, Num (- 3)], [Num 0, Num 0], [Num 0, Num 0], [Num 1, Num (- 1)], [Num 1, Num (- 1)]])
       = Inr 5"
    by (simp add: normalize_velocity_def prog_defs)
  from normalize_no_mutation [OF l r, of 0 1] l r [symmetric] f show ?thesis by simp
qed

end
